theory Spec2Isabelle
  imports Main "HOL-Library.Sublist"
begin

section \<open>JavaScript values and strings\<close>

text \<open>
  Strings are lists of 8-bit characters, read as the code points U+0000 to U+00FF.
  \<open>toLowerCase\<close> is JavaScript's \<open>String.prototype.toLowerCase\<close> on that alphabet: the
  letters A to Z, and the capital letters U+00C0 to U+00DE (all of that range but the
  multiplication sign U+00D7), move up by 32 to their small letters; every other character
  stays.
\<close>

definition toLowerChar :: "char \<Rightarrow> char" where
  "toLowerChar c =
     (let n = (of_char c :: nat) in
      if (65 \<le> n \<and> n \<le> 90) \<or> (192 \<le> n \<and> n \<le> 222 \<and> n \<noteq> 215) then char_of (n + 32)
      else c)"

definition toLowerCase :: "string \<Rightarrow> string" where
  "toLowerCase s = map toLowerChar s"

text \<open>
  A property read \<open>obj[key]\<close> on a plain object (an object literal, or the result of
  \<open>JSON.parse\<close>) yields the object's own property when it has one, and otherwise walks to
  \<open>Object.prototype\<close>, whose members (functions, and the prototype object itself under
  \<open>__proto__\<close>) are all truthy and none of them a string. Own properties are modelled as
  a map from keys to strings: the label-to-section tables hold section names.
\<close>

datatype jsvalue = Str string | Inherited string | Undefined

definition objectPrototypeKeys :: "string list" where
  "objectPrototypeKeys =
     [''constructor'', ''__proto__'', ''hasOwnProperty'', ''isPrototypeOf'',
      ''propertyIsEnumerable'', ''toLocaleString'', ''toString'', ''valueOf'',
      ''__defineGetter__'', ''__defineSetter__'', ''__lookupGetter__'', ''__lookupSetter__'']"

definition propertyLookup :: "(string \<rightharpoonup> string) \<Rightarrow> string \<Rightarrow> jsvalue" where
  "propertyLookup obj key =
     (case obj key of
        Some v \<Rightarrow> Str v
      | None \<Rightarrow> if key \<in> set objectPrototypeKeys then Inherited key else Undefined)"

fun truthy :: "jsvalue \<Rightarrow> bool" where
  "truthy (Str s) = (s \<noteq> [])"
| "truthy (Inherited k) = True"
| "truthy Undefined = False"

section \<open>Classifier\<close>

definition DEFAULT_LABEL_MAP :: "string \<rightharpoonup> string" where
  "DEFAULT_LABEL_MAP = map_of
     [(''bug'', ''Fixed''), (''fix'', ''Fixed''), (''bugfix'', ''Fixed''),
      (''enhancement'', ''Added''), (''feat'', ''Added''), (''feature'', ''Added''),
      (''chore'', ''Changed''), (''refactor'', ''Changed''), (''deps'', ''Changed''),
      (''dependencies'', ''Changed''),
      (''docs'', ''Docs''), (''documentation'', ''Docs'')]"

definition CONVENTIONAL_PREFIX_MAP :: "string \<rightharpoonup> string" where
  "CONVENTIONAL_PREFIX_MAP = map_of
     [(''feat'', ''Added''), (''fix'', ''Fixed''), (''chore'', ''Changed''),
      (''refactor'', ''Changed''), (''docs'', ''Docs'')]"

definition DEPS_LABELS :: "string set" where
  "DEPS_LABELS = {''dependencies'', ''deps'', ''dependabot''}"

record pr =
  number :: int
  title :: string
  user :: string
  labels :: "string list"

text \<open>The \<open>for\<close> loop of \<open>bucketForLabels\<close> over the lower-cased names.\<close>

fun bucketForNames :: "string list \<Rightarrow> (string \<rightharpoonup> string) \<Rightarrow> jsvalue" where
  "bucketForNames [] sectionMap = Str ''Other''"
| "bucketForNames (name # names) sectionMap =
     (if truthy (propertyLookup sectionMap name) then propertyLookup sectionMap name
      else bucketForNames names sectionMap)"

definition bucketForLabels :: "string list \<Rightarrow> (string \<rightharpoonup> string) \<Rightarrow> jsvalue" where
  "bucketForLabels labelNames sectionMap = bucketForNames (map toLowerCase labelNames) sectionMap"

record filters =
  includeLabels :: "string list"
  excludeLabels :: "string list"
  ignoreDeps :: bool

definition shouldExcludePR :: "pr \<Rightarrow> filters \<Rightarrow> bool" where
  "shouldExcludePR p f =
     (let ls = map toLowerCase (labels p) in
      if ignoreDeps f \<and> length ls > 0 \<and> list_all (\<lambda>l. l \<in> DEPS_LABELS) ls then True
      else if length (excludeLabels f) > 0 \<and> list_ex (\<lambda>l. l \<in> set (excludeLabels f)) ls then True
      else if length (includeLabels f) > 0 \<and> \<not> list_ex (\<lambda>l. l \<in> set (includeLabels f)) ls then True
      else False)"

text \<open>
  \<open>bucketFromConventionalTitle\<close> matches the title against
  \<^verbatim>\<open>/^(\w+)(?:\(.+?\))?:\s*/\<close> and reads only the first group. \<open>\w\<close> is a letter, a digit or
  an underscore; \<open>.\<close> is any character but a line terminator. The trailing \<open>\s*\<close> matches
  the empty string too and changes neither whether the title matches nor the first group, so
  it has no counterpart below.
\<close>

definition isWordChar :: "char \<Rightarrow> bool" where
  "isWordChar c =
     (let n = (of_char c :: nat) in
      (48 \<le> n \<and> n \<le> 57) \<or> (65 \<le> n \<and> n \<le> 90) \<or> (97 \<le> n \<and> n \<le> 122) \<or> n = 95)"

definition isLineTerminator :: "char \<Rightarrow> bool" where
  "isLineTerminator c = (c = CHR 0x0A \<or> c = CHR 0x0D)"

text \<open>
  The lazy \<open>.+?\<close> has taken its first character; at each position the matcher first tries
  to close the scope with \<open>):\<close> and only then lets \<open>.\<close> take one more character.
\<close>

fun scopeClose :: "string \<Rightarrow> bool" where
  "scopeClose [] = False"
| "scopeClose (c # cs) =
     (prefix ''):'' (c # cs) \<or> (\<not> isLineTerminator c \<and> scopeClose cs))"

text \<open>What follows the word: the optional group (tried first) and then the colon.\<close>

definition afterWord :: "string \<Rightarrow> bool" where
  "afterWord rest =
     ((case rest of
         c1 # c2 # cs \<Rightarrow> c1 = CHR ''('' \<and> \<not> isLineTerminator c2 \<and> scopeClose cs
       | _ \<Rightarrow> False)
      \<or> prefix '':'' rest)"

text \<open>
  The greedy \<open>\w+\<close> takes the longest run of word characters first and gives characters
  back one at a time while the rest fails; the result is the first group of the match.
\<close>

definition conventionalMatch :: "string \<Rightarrow> string option" where
  "conventionalMatch t =
     (let k = length (takeWhile isWordChar t) in
      map_option (\<lambda>n. take n t) (List.find (\<lambda>n. afterWord (drop n t)) (rev [1..<Suc k])))"

definition bucketFromConventionalTitle :: "string \<Rightarrow> jsvalue option" where
  "bucketFromConventionalTitle t =
     (case conventionalMatch t of
        None \<Rightarrow> None
      | Some w \<Rightarrow>
          (let v = propertyLookup CONVENTIONAL_PREFIX_MAP (toLowerCase w) in
           if truthy v then Some v else None))"

text \<open>The filter of \<open>run\<close> and the body of its grouping loop: the bucket one record lands in.\<close>

definition run_filtered :: "pr list \<Rightarrow> filters \<Rightarrow> pr list" where
  "run_filtered prs f = filter (\<lambda>p. \<not> shouldExcludePR p f) prs"

definition run_bucket :: "bool \<Rightarrow> (string \<rightharpoonup> string) \<Rightarrow> pr \<Rightarrow> jsvalue" where
  "run_bucket useConventional sectionMap p =
     (let b = bucketForLabels (labels p) sectionMap in
      if b = Str ''Other'' \<and> useConventional then
        (case bucketFromConventionalTitle (title p) of Some v \<Rightarrow> v | None \<Rightarrow> Str ''Other'')
      else b)"

text \<open>
  \<open>index.js\<close> holds an earlier \<open>bucketForLabels\<close> without a section map: it asks section by
  section, in a fixed order, whether any of the section's labels is among the names.
\<close>

definition hasAny :: "string list \<Rightarrow> string list \<Rightarrow> bool" where
  "hasAny names cands = list_ex (\<lambda>c. c \<in> set names) cands"

definition bucketForLabels_index :: "string list \<Rightarrow> string" where
  "bucketForLabels_index labelNames =
     (let names = map toLowerCase labelNames in
      if hasAny names [''bug'', ''fix'', ''bugfix''] then ''Fixed''
      else if hasAny names [''enhancement'', ''feat'', ''feature''] then ''Added''
      else if hasAny names [''chore'', ''refactor'', ''deps'', ''dependencies''] then ''Changed''
      else if hasAny names [''docs'', ''documentation''] then ''Docs''
      else ''Other'')"




section \<open>Time\<close>

text \<open>
  \<open>Date.prototype.toISOString\<close> on a count of milliseconds since the epoch, in the proleptic
  Gregorian calendar and UTC: \<open>YYYY-MM-DDTHH:mm:ss.sssZ\<close>, the year with a sign and six
  digits outside 0 to 9999.
\<close>

definition digit :: "int \<Rightarrow> char" where
  "digit d = char_of (48 + d)"

definition pad2 :: "int \<Rightarrow> string" where
  "pad2 n = [digit (n div 10 mod 10), digit (n mod 10)]"

definition pad3 :: "int \<Rightarrow> string" where
  "pad3 n = digit (n div 100 mod 10) # pad2 n"

definition pad4 :: "int \<Rightarrow> string" where
  "pad4 n = pad2 (n div 100) @ pad2 n"

definition civilFromDays :: "int \<Rightarrow> int \<times> int \<times> int" where
  "civilFromDays days =
     (let z = days + 719468;
          era = z div 146097;
          doe = z - era * 146097;
          yoe = (doe - doe div 1460 + doe div 36524 - doe div 146096) div 365;
          doy = doe - (365 * yoe + yoe div 4 - yoe div 100);
          mp = (5 * doy + 2) div 153;
          d = doy - (153 * mp + 2) div 5 + 1;
          m = (if mp < 10 then mp + 3 else mp - 9);
          y = yoe + era * 400 + (if m \<le> 2 then 1 else 0)
      in (y, m, d))"

definition toISOString :: "int \<Rightarrow> string" where
  "toISOString ms =
     (let t = ms mod 86400000;
          (y, m, d) = civilFromDays (ms div 86400000);
          year = (if 0 \<le> y \<and> y \<le> 9999 then pad4 y
                  else (if y < 0 then ''-'' else ''+'') @ pad2 (\<bar>y\<bar> div 10000) @ pad4 \<bar>y\<bar>)
      in year @ ''-'' @ pad2 m @ ''-'' @ pad2 d @ ''T'' @ pad2 (t div 3600000) @ '':''
         @ pad2 (t div 60000 mod 60) @ '':'' @ pad2 (t div 1000 mod 60) @ ''.'' @ pad3 (t mod 1000)
         @ ''Z'')"

text \<open>\<open>isoDaysAgo\<close>, with the reading of \<open>Date.now()\<close> as an argument.\<close>

definition isoDaysAgo :: "int \<Rightarrow> int \<Rightarrow> string" where
  "isoDaysAgo now days = toISOString (now - days * 24 * 60 * 60 * 1000)"

section \<open>The platform client\<close>

text \<open>
  \<open>octokit\<close> is the client every API helper receives. Its calls either return the response
  data or throw; a thrown value is an \<open>error\<close>. The calls that read the repository are
  functions of their arguments. The release calls read and change the release records the
  platform keeps, a state of type \<open>'p\<close> that is passed along. The client stands for one
  repository: the \<open>owner\<close> and \<open>repo\<close> arguments, the same in every call of a run, appear
  only where the code builds a string from them.
\<close>

datatype error = HttpError nat | Error string

record tag =
  name :: string
  commit_sha :: string

record git_object =
  object_sha :: string
  object_type :: string

record commit_dates =
  committer_date :: "string option"
  author_date :: "string option"

datatype raw_label = LabelString string | LabelObject "string option"

record item =
  item_number :: int
  item_title :: string
  item_user_login :: "string option"
  item_labels :: "raw_label list option"

record release =
  release_id :: nat
  tag_name :: string
  release_name :: string
  release_body :: string
  release_draft :: bool
  html_url :: string

record 'p octokit =
  getRef :: "string \<Rightarrow> error + git_object"
  getTag :: "string \<Rightarrow> error + git_object"
  getCommit :: "string \<Rightarrow> error + commit_dates"
  issuesAndPullRequests :: "string \<Rightarrow> nat \<Rightarrow> nat \<Rightarrow> error + item list"
  getReleaseByTag :: "string \<Rightarrow> 'p \<Rightarrow> (error + release) \<times> 'p"
  updateRelease :: "nat \<Rightarrow> string \<Rightarrow> bool \<Rightarrow> 'p \<Rightarrow> (error + release) \<times> 'p"
  createRelease :: "string \<Rightarrow> string \<Rightarrow> string \<Rightarrow> bool \<Rightarrow> 'p \<Rightarrow> (error + release) \<times> 'p"

text \<open>
  Values that may be \<open>null\<close> or \<open>undefined\<close> are options; \<open>truthyStr\<close> is the test of
  \<open>if (x)\<close> on such a string, \<open>orElse a b\<close> is \<open>a || b\<close> and \<open>orEmpty a\<close> is \<open>a || ""\<close>.
\<close>

definition truthyStr :: "string option \<Rightarrow> bool" where
  "truthyStr x = (case x of Some s \<Rightarrow> s \<noteq> [] | None \<Rightarrow> False)"

definition orElse :: "string option \<Rightarrow> string option \<Rightarrow> string option" where
  "orElse a b = (if truthyStr a then a else b)"

definition orEmpty :: "string option \<Rightarrow> string" where
  "orEmpty a = (case a of Some s \<Rightarrow> s | None \<Rightarrow> [])"

section \<open>Tag history and release window\<close>

definition commitDate :: "'p octokit \<Rightarrow> string \<Rightarrow> string \<Rightarrow> error + string" where
  "commitDate octokit sha tagName =
     (case getCommit octokit sha of
        Inl e \<Rightarrow> Inl e
      | Inr c \<Rightarrow>
          (let dt = orElse (committer_date c) (author_date c) in
           if \<not> truthyStr dt
           then Inl (Error (''Unable to determine commit date for tag '' @ tagName))
           else Inr (orEmpty dt)))"

definition tagCommitDateISO :: "'p octokit \<Rightarrow> string \<Rightarrow> error + string" where
  "tagCommitDateISO octokit tagName =
     (case getRef octokit (''tags/'' @ tagName) of
        Inl e \<Rightarrow> Inl e
      | Inr refObj \<Rightarrow>
          (case (if object_type refObj = ''tag'' then getTag octokit (object_sha refObj)
                 else Inr refObj) of
             Inl e \<Rightarrow> Inl e
           | Inr obj \<Rightarrow>
               if object_type obj \<noteq> ''commit'' then commitDate octokit (object_sha obj) tagName
               else commitDate octokit (object_sha obj) tagName))"

record github_context =
  eventName :: string
  refType :: "string option"
  refName :: "string option"
  ref :: "string option"

text \<open>\<open>s.replace(pat, rep)\<close> with a string pattern: the first occurrence only.\<close>

fun replaceFirst :: "string \<Rightarrow> string \<Rightarrow> string \<Rightarrow> string" where
  "replaceFirst pat rep [] = (if pat = [] then rep else [])"
| "replaceFirst pat rep (c # cs) =
     (if prefix pat (c # cs) then rep @ drop (length pat) (c # cs)
      else c # replaceFirst pat rep cs)"

fun findIndex :: "('a \<Rightarrow> bool) \<Rightarrow> 'a list \<Rightarrow> nat option" where
  "findIndex P [] = None"
| "findIndex P (x # xs) = (if P x then Some 0 else map_option Suc (findIndex P xs))"

text \<open>The tag a push of a tag reference names, \<open>null\<close> on every other trigger.\<close>

definition run_currentTag :: "github_context \<Rightarrow> string option" where
  "run_currentTag ctx =
     (if eventName ctx = ''push''
         \<and> (refType ctx = Some ''tag'' \<or> prefix ''refs/tags/'' (orEmpty (ref ctx)))
      then (if truthyStr (refName ctx) then refName ctx
            else Some (replaceFirst ''refs/tags/'' [] (orEmpty (ref ctx))))
      else None)"

record window =
  currentTag :: "string option"
  previousTag :: "string option"
  baselineISO :: string

definition notFoundWarning :: "string \<Rightarrow> string" where
  "notFoundWarning t =
     ''Current tag '' @ t @ '' not found in listTags; falling back to latest tag logic.''"

text \<open>
  The part of \<open>run\<close> from the declaration of \<open>currentTag\<close> to the end of the branch on it,
  given the tags \<open>listTagsAll\<close> returned: the warnings logged and the three variables, or the
  error that leaves \<open>run\<close>.
\<close>

definition run_window ::
  "'p octokit \<Rightarrow> int \<Rightarrow> int \<Rightarrow> github_context \<Rightarrow> tag list \<Rightarrow> string list \<times> (error + window)"
where
  "run_window octokit now sinceDays ctx tags =
     (let pushed = run_currentTag ctx in
      if truthyStr pushed then
        (let idx = findIndex (\<lambda>t. name t = orEmpty pushed) tags;
             warnings = (case idx of None \<Rightarrow> [notFoundWarning (orEmpty pushed)] | Some i \<Rightarrow> []);
             previous = (case idx of
                           None \<Rightarrow> None
                         | Some i \<Rightarrow> if i + 1 < length tags then Some (name (tags ! (i + 1)))
                                     else None)
         in if truthyStr previous then
              (warnings,
               case tagCommitDateISO octokit (orEmpty previous) of
                 Inl e \<Rightarrow> Inl e
               | Inr d \<Rightarrow> Inr \<lparr>currentTag = pushed, previousTag = previous, baselineISO = d\<rparr>)
            else
              (warnings,
               Inr \<lparr>currentTag = pushed, previousTag = previous,
                    baselineISO = isoDaysAgo now sinceDays\<rparr>))
      else if length tags \<ge> 2 then
        ([], case tagCommitDateISO octokit (name (tags ! 0)) of
               Inl e \<Rightarrow> Inl e
             | Inr d \<Rightarrow> Inr \<lparr>currentTag = Some (name (tags ! 0)),
                              previousTag = Some (name (tags ! 1)), baselineISO = d\<rparr>)
      else if length tags = 1 then
        ([], case tagCommitDateISO octokit (name (tags ! 0)) of
               Inl e \<Rightarrow> Inl e
             | Inr d \<Rightarrow> Inr \<lparr>currentTag = Some (name (tags ! 0)), previousTag = None,
                              baselineISO = d\<rparr>)
      else
        ([], Inr \<lparr>currentTag = pushed, previousTag = None,
                  baselineISO = isoDaysAgo now sinceDays\<rparr>))"

definition run_title :: "github_context \<Rightarrow> window \<Rightarrow> string" where
  "run_title ctx w =
     (if eventName ctx = ''push'' \<and> truthyStr (currentTag w)
      then ''## Release '' @ orEmpty (currentTag w)
      else ''## Release notes (unreleased)'')"

section \<open>Change-request collector\<close>

definition labelName :: "raw_label \<Rightarrow> string option" where
  "labelName l = (case l of LabelString s \<Rightarrow> Some s | LabelObject n \<Rightarrow> n)"

definition normalizeLabels :: "raw_label list option \<Rightarrow> string list" where
  "normalizeLabels ls =
     (case ls of
        Some xs \<Rightarrow> map orEmpty (filter truthyStr (map labelName xs))
      | None \<Rightarrow> [])"

definition normalizeItem :: "item \<Rightarrow> pr" where
  "normalizeItem i =
     \<lparr>number = item_number i, title = item_title i,
      user = (if truthyStr (item_user_login i) then orEmpty (item_user_login i) else ''unknown''),
      labels = normalizeLabels (item_labels i)\<rparr>"

definition perPage :: nat where
  "perPage = 100"

definition searchQuery :: "string \<Rightarrow> string \<Rightarrow> string \<Rightarrow> string \<Rightarrow> string" where
  "searchQuery owner repo baseBranch mergedAfterISO =
     ''repo:'' @ owner @ ''/'' @ repo @ '' is:pr is:merged base:'' @ baseBranch
       @ '' merged:>'' @ mergedAfterISO"

text \<open>The inner \<open>for\<close> loop: push the record, then leave once the cap is reached.\<close>

fun pushItems :: "int \<Rightarrow> item list \<Rightarrow> pr list \<Rightarrow> pr list" where
  "pushItems maxPRs [] out = out"
| "pushItems maxPRs (i # items) out =
     (let out' = out @ [normalizeItem i] in
      if int (length out') \<ge> maxPRs then out' else pushItems maxPRs items out')"

text \<open>The \<open>while\<close> loop over the pages; \<open>fetch\<close> is the search call for one page.\<close>

function searchLoop ::
  "(nat \<Rightarrow> error + item list) \<Rightarrow> int \<Rightarrow> nat \<Rightarrow> pr list \<Rightarrow> error + pr list"
where
  "searchLoop fetch maxPRs page out =
     (if int (length out) < maxPRs then
        (case fetch page of
           Inl e \<Rightarrow> Inl e
         | Inr items \<Rightarrow>
             if items = [] then Inr out
             else if length items < perPage then Inr (pushItems maxPRs items out)
             else searchLoop fetch maxPRs (page + 1) (pushItems maxPRs items out))
      else Inr out)"
  by pat_completeness auto
termination
proof (relation "measure (\<lambda>(fetch, maxPRs, page, out). nat (maxPRs - int (length out)))")
  show "wf (measure (\<lambda>(fetch, maxPRs, page, out). nat (maxPRs - int (length out))))"
    by simp
next
  fix fetch :: "nat \<Rightarrow> error + item list" and maxPRs :: int and page :: nat
    and out :: "pr list" and items :: "item list"
  assume below: "int (length out) < maxPRs" and nonempty: "items \<noteq> []"
  have grows: "length acc < length (pushItems maxPRs (i # rest) acc)" for i rest acc
  proof (induction rest arbitrary: i acc)
    case Nil
    show ?case by (simp add: Let_def)
  next
    case (Cons j rest)
    have "length (acc @ [normalizeItem i])
            < length (pushItems maxPRs (j # rest) (acc @ [normalizeItem i]))"
      by (rule Cons.IH)
    then show ?case by (simp add: Let_def)
  qed
  from nonempty obtain i rest where "items = i # rest"
    by (cases items) auto
  with grows have "length out < length (pushItems maxPRs items out)"
    by simp
  with below
  show "((fetch, maxPRs, page + 1, pushItems maxPRs items out), (fetch, maxPRs, page, out))
          \<in> measure (\<lambda>(fetch, maxPRs, page, out). nat (maxPRs - int (length out)))"
    by simp
qed

declare searchLoop.simps [simp del]

definition searchMergedPRs ::
  "'p octokit \<Rightarrow> string \<Rightarrow> string \<Rightarrow> string \<Rightarrow> string \<Rightarrow> int \<Rightarrow> error + pr list"
where
  "searchMergedPRs octokit owner repo baseBranch mergedAfterISO maxPRs =
     (let q = searchQuery owner repo baseBranch mergedAfterISO in
      case searchLoop (issuesAndPullRequests octokit q perPage) maxPRs 1 [] of
        Inl e \<Rightarrow> Inl e
      | Inr out \<Rightarrow> Inr (sort_key number out))"

section \<open>Publisher: the release sink\<close>

record upsert_result =
  action :: string
  url :: string

text \<open>The \<open>catch\<close> block of \<open>upsertReleaseByTag\<close>; the caught value is not looked at.\<close>

definition upsert_catch ::
  "'p octokit \<Rightarrow> string \<Rightarrow> string \<Rightarrow> bool \<Rightarrow> 'p \<Rightarrow> (error + upsert_result) \<times> 'p"
where
  "upsert_catch octokit tg bd dr st =
     (case createRelease octokit tg (''Release '' @ tg) bd dr st of
        (Inl e, st') \<Rightarrow> (Inl e, st')
      | (Inr created, st') \<Rightarrow> (Inr \<lparr>action = ''created'', url = html_url created\<rparr>, st'))"

definition upsertReleaseByTag ::
  "'p octokit \<Rightarrow> string \<Rightarrow> string \<Rightarrow> bool \<Rightarrow> 'p \<Rightarrow> (error + upsert_result) \<times> 'p"
where
  "upsertReleaseByTag octokit tg bd dr st =
     (case getReleaseByTag octokit tg st of
        (Inl e, st1) \<Rightarrow> upsert_catch octokit tg bd dr st1
      | (Inr existing, st1) \<Rightarrow>
          (case updateRelease octokit (release_id existing) bd dr st1 of
             (Inl e, st2) \<Rightarrow> upsert_catch octokit tg bd dr st2
           | (Inr updated, st2) \<Rightarrow> (Inr \<lparr>action = ''updated'', url = html_url updated\<rparr>, st2)))"

text \<open>
  A stand-in for the platform's release records, used to count them: a list of records, every
  call served. A lookup by tag answers 404 when no record carries the tag; an update changes
  body and draft flag of the record with the given id; a creation appends a record with an
  unused id.
\<close>

definition memory_getReleaseByTag :: "string \<Rightarrow> release list \<Rightarrow> (error + release) \<times> release list" where
  "memory_getReleaseByTag tg st =
     (case List.find (\<lambda>r. tag_name r = tg) st of
        None \<Rightarrow> (Inl (HttpError 404), st)
      | Some r \<Rightarrow> (Inr r, st))"

definition memory_updateRelease ::
  "nat \<Rightarrow> string \<Rightarrow> bool \<Rightarrow> release list \<Rightarrow> (error + release) \<times> release list"
where
  "memory_updateRelease rid bd dr st =
     (case List.find (\<lambda>r. release_id r = rid) st of
        None \<Rightarrow> (Inl (HttpError 404), st)
      | Some r \<Rightarrow>
          (Inr (r\<lparr>release_body := bd, release_draft := dr\<rparr>),
           map (\<lambda>x. if release_id x = rid then x\<lparr>release_body := bd, release_draft := dr\<rparr> else x)
             st))"

definition memory_createRelease ::
  "string \<Rightarrow> string \<Rightarrow> string \<Rightarrow> bool \<Rightarrow> release list \<Rightarrow> (error + release) \<times> release list"
where
  "memory_createRelease tg nm bd dr st =
     (let r = \<lparr>release_id = Suc (fold max (map release_id st) 0), tag_name = tg,
                release_name = nm, release_body = bd, release_draft = dr,
                html_url = ''https://github.com/acme/app/releases/tag/'' @ tg\<rparr>
      in (Inr r, st @ [r]))"

definition releasesFor :: "string \<Rightarrow> release list \<Rightarrow> release list" where
  "releasesFor tg st = filter (\<lambda>r. tag_name r = tg) st"

text \<open>
  A small repository to run the code on: the annotated tag v1.1 and the lightweight tag v1.0,
  three merged change requests on one short page of search results, and the release records
  above.
\<close>

definition demoOctokit :: "release list octokit" where
  "demoOctokit =
     \<lparr>getRef = (\<lambda>r. if r = ''tags/v1.1'' then Inr \<lparr>object_sha = ''a11'', object_type = ''tag''\<rparr>
                     else if r = ''tags/v1.0''
                     then Inr \<lparr>object_sha = ''c10'', object_type = ''commit''\<rparr>
                     else Inl (HttpError 404)),
      getTag = (\<lambda>s. if s = ''a11'' then Inr \<lparr>object_sha = ''c11'', object_type = ''commit''\<rparr>
                     else Inl (HttpError 404)),
      getCommit = (\<lambda>s. if s = ''c11''
                        then Inr \<lparr>committer_date = Some ''2024-02-01T09:00:00Z'',
                                  author_date = Some ''2024-01-31T17:00:00Z''\<rparr>
                        else if s = ''c10''
                        then Inr \<lparr>committer_date = None,
                                  author_date = Some ''2024-01-01T09:00:00Z''\<rparr>
                        else Inl (HttpError 404)),
      issuesAndPullRequests = (\<lambda>q per page.
         if page = 1 then
           Inr [\<lparr>item_number = 420, item_title = ''Upgrade dependencies'',
                  item_user_login = Some ''carol'',
                  item_labels = Some [LabelObject (Some ''dependencies'')]\<rparr>,
                \<lparr>item_number = 412, item_title = ''Fix login redirect loop'',
                  item_user_login = Some ''alice'', item_labels = Some [LabelString ''bug'']\<rparr>,
                \<lparr>item_number = 418, item_title = ''Support dark mode'',
                  item_user_login = None,
                  item_labels = Some [LabelObject None, LabelObject (Some ''feat'')]\<rparr>]
         else Inr []),
      getReleaseByTag = memory_getReleaseByTag,
      updateRelease = memory_updateRelease,
      createRelease = memory_createRelease\<rparr>"

text \<open>The same repository behind a platform whose release lookup fails with a server error.\<close>

definition serverErrorOctokit :: "release list octokit" where
  "serverErrorOctokit =
     demoOctokit\<lparr>getReleaseByTag := (\<lambda>tg st. (Inl (HttpError 500), st))\<rparr>"

definition demoTags :: "tag list" where
  "demoTags = [\<lparr>name = ''v1.1'', commit_sha = ''c11''\<rparr>, \<lparr>name = ''v1.0'', commit_sha = ''c10''\<rparr>]"

definition tagPush :: "string \<Rightarrow> github_context" where
  "tagPush t =
     \<lparr>eventName = ''push'', refType = Some ''tag'', refName = Some t,
      ref = Some (''refs/tags/'' @ t)\<rparr>"

definition branchPush :: github_context where
  "branchPush =
     \<lparr>eventName = ''push'', refType = Some ''branch'', refName = Some ''main'',
      ref = Some ''refs/heads/main''\<rparr>"

definition manualRun :: github_context where
  "manualRun =
     \<lparr>eventName = ''workflow_dispatch'', refType = Some ''branch'', refName = Some ''main'',
      ref = Some ''refs/heads/main''\<rparr>"

section \<open>Properties of the classifier\<close>





text \<open>
  Lower-casing reaches the capitals beyond A to Z: the label \<open>EPIC\<close> written with a capital
  E acute (U+00C9) meets the key written with the small one (U+00E9).
\<close>

lemma bucketForLabels_latin1_capital:
  "toLowerCase (CHR 0xC9 # ''PIC'') = CHR 0xE9 # ''pic''
   \<and> toLowerCase [CHR 0xD7, CHR 0xDF, CHR 0xDE] = [CHR 0xD7, CHR 0xDF, CHR 0xFE]
   \<and> bucketForLabels [CHR 0xC9 # ''PIC''] [CHR 0xE9 # ''pic'' \<mapsto> ''Epics''] = Str ''Epics''"
  by code_simp

text \<open>
  The \<open>bucketForLabels\<close> of \<open>index.js\<close> decides by section order, not by label order: the
  labels \<open>[feat, bug]\<close> give Fixed there and Added with the section map.
\<close>

lemma bucketForLabels_index_section_priority:
  "bucketForLabels_index [''feat'', ''bug''] = ''Fixed''
   \<and> bucketForLabels [''feat'', ''bug''] DEFAULT_LABEL_MAP = Str ''Added''"
  by code_simp

text \<open>
  The title rule is consulted only when the label-based section is Other and the switch is on.
\<close>

lemma run_bucket_gate:
  "\<not> useConventional \<or> bucketForLabels (labels p) sectionMap \<noteq> Str ''Other'' \<Longrightarrow>
   run_bucket useConventional sectionMap p = bucketForLabels (labels p) sectionMap"
  by (auto simp: run_bucket_def)

text \<open>
  The first group of the title pattern is the whole leading run of word characters: a shorter
  run is followed by a word character, which is neither a parenthesis nor a colon.
\<close>

lemma afterWord_word_char:
  "isWordChar c \<Longrightarrow> \<not> afterWord (c # cs)"
  by (auto simp: afterWord_def isWordChar_def split: list.splits)

lemma drop_in_word_run:
  assumes "n < length (takeWhile isWordChar t)"
  shows "\<not> afterWord (drop n t)"
proof -
  from assms have n: "n < length t"
    using length_takeWhile_le [of isWordChar t] by simp
  have "isWordChar (t ! n)"
    using assms by (metis nth_mem set_takeWhileD takeWhile_nth)
  moreover have "drop n t = (t ! n) # drop (Suc n) t"
    using n by (simp add: Cons_nth_drop_Suc)
  ultimately show ?thesis
    by (simp add: afterWord_word_char)
qed

lemma conventionalMatch_longest_run:
  "conventionalMatch t =
     (if takeWhile isWordChar t \<noteq> [] \<and> afterWord (dropWhile isWordChar t)
      then Some (takeWhile isWordChar t) else None)"
proof -
  let ?k = "length (takeWhile isWordChar t)"
  have shorter: "List.find (\<lambda>n. afterWord (drop n t)) (rev [1..<?k]) = None"
    by (auto simp: find_None_iff drop_in_word_run)
  have dropk: "drop ?k t = dropWhile isWordChar t"
    by (rule dropWhile_eq_drop [symmetric])
  have takek: "take ?k t = takeWhile isWordChar t"
    by (rule takeWhile_eq_take [symmetric])
  show ?thesis
  proof (cases "?k = 0")
    case True
    then show ?thesis by (simp add: conventionalMatch_def)
  next
    case False
    then have "rev [1..<Suc ?k] = ?k # rev [1..<?k]"
      by (cases "takeWhile isWordChar t") simp_all
    with False shorter dropk takek show ?thesis
      by (simp add: conventionalMatch_def Let_def)
  qed
qed

text \<open>
  With the switch on and the label-based section Other, the bucket is the table's section for
  the lower-cased prefix word; a word outside the table keeps Other unless it names a
  property the table inherits.
\<close>

lemma CONVENTIONAL_PREFIX_MAP_named:
  "CONVENTIONAL_PREFIX_MAP k = Some s \<Longrightarrow> s \<noteq> []"
  by (auto simp: CONVENTIONAL_PREFIX_MAP_def split: if_splits)

lemma run_bucket_fallback:
  assumes "bucketForLabels (labels p) sectionMap = Str ''Other''"
  shows "run_bucket True sectionMap p =
     (case conventionalMatch (title p) of
        None \<Rightarrow> Str ''Other''
      | Some w \<Rightarrow>
          (case CONVENTIONAL_PREFIX_MAP (toLowerCase w) of
             Some s \<Rightarrow> Str s
           | None \<Rightarrow> if toLowerCase w \<in> set objectPrototypeKeys
                     then Inherited (toLowerCase w) else Str ''Other''))"
  using assms
  by (auto simp: run_bucket_def bucketFromConventionalTitle_def propertyLookup_def Let_def
      dest: CONVENTIONAL_PREFIX_MAP_named split: option.splits)

text \<open>
  The scenario of the specification: the title \<open>fix(auth): correct token refresh\<close> with no
  label of the map lands in Fixed when the switch is on.
\<close>

lemma run_bucket_fix_auth_scenario:
  "run_bucket True DEFAULT_LABEL_MAP
     \<lparr>number = 431, title = ''fix(auth): correct token refresh'', user = ''erin'',
      labels = [''question'']\<rparr>
   = Str ''Fixed''
   \<and> run_bucket False DEFAULT_LABEL_MAP
     \<lparr>number = 431, title = ''fix(auth): correct token refresh'', user = ''erin'',
      labels = [''question'']\<rparr>
   = Str ''Other''"
  by code_simp

text \<open>
  C7 at a title whose prefix word is not in the prefix table: the claim keeps the record in
  Other. \<open>CONVENTIONAL_PREFIX_MAP["constructor"]\<close> is the function every object inherits, a
  truthy value, so \<open>bucketFromConventionalTitle\<close> returns it and the record is filed under a
  key that is no section name.
\<close>

theorem constructor_title_leaves_sections:
  "run_bucket True DEFAULT_LABEL_MAP
     \<lparr>number = 7, title = ''constructor: initialise fields in order'', user = ''dana'',
      labels = []\<rparr>
   = Inherited ''constructor''"
  by code_simp

text \<open>
  C8: a record with at least one label, all of them dependency labels, and no include or
  exclude labels configured, is dropped exactly when the ignore-dependency flag is set.
\<close>

theorem deps_only_dropped_iff_ignoreDeps:
  assumes "labels p \<noteq> []"
    and "list_all (\<lambda>l. toLowerCase l \<in> DEPS_LABELS) (labels p)"
  shows "shouldExcludePR p \<lparr>includeLabels = [], excludeLabels = [], ignoreDeps = flag\<rparr> = flag
    \<and> run_filtered [p] \<lparr>includeLabels = [], excludeLabels = [], ignoreDeps = flag\<rparr>
           = (if flag then [] else [p])"
  using assms by (simp add: run_filtered_def shouldExcludePR_def list_all_iff)

theorem deps_only_dropped_iff_ignoreDeps_witness:
  "shouldExcludePR
     \<lparr>number = 420, title = ''Upgrade dependencies'', user = ''carol'',
      labels = [''Dependencies'', ''deps'']\<rparr>
     \<lparr>includeLabels = [], excludeLabels = [], ignoreDeps = True\<rparr>
   \<and> \<not> shouldExcludePR
     \<lparr>number = 420, title = ''Upgrade dependencies'', user = ''carol'',
      labels = [''Dependencies'', ''deps'']\<rparr>
     \<lparr>includeLabels = [], excludeLabels = [], ignoreDeps = False\<rparr>"
proof -
  let ?p = "\<lparr>number = 420, title = ''Upgrade dependencies'', user = ''carol'',
             labels = [''Dependencies'', ''deps'']\<rparr>"
  have h1: "labels ?p \<noteq> []"
    by simp
  have h2: "list_all (\<lambda>l. toLowerCase l \<in> DEPS_LABELS) (labels ?p)"
    by code_simp
  show ?thesis
    using deps_only_dropped_iff_ignoreDeps [OF h1 h2, of True]
      deps_only_dropped_iff_ignoreDeps [OF h1 h2, of False]
    by simp
qed

text \<open>
  C10: a record without labels is not touched by the ignore-dependency flag; with no include
  or exclude labels configured it is retained, and its label-based section is Other.
\<close>

theorem labelless_retained_in_Other:
  assumes "labels p = []"
  shows "shouldExcludePR p f = shouldExcludePR p (f\<lparr>ignoreDeps := False\<rparr>)
    \<and> \<not> shouldExcludePR p \<lparr>includeLabels = [], excludeLabels = [], ignoreDeps = flag\<rparr>
    \<and> bucketForLabels (labels p) sectionMap = Str ''Other''
    \<and> run_bucket False sectionMap p = Str ''Other''"
  using assms by (simp add: shouldExcludePR_def bucketForLabels_def run_bucket_def)

theorem labelless_retained_in_Other_witness:
  "\<not> shouldExcludePR
       \<lparr>number = 3, title = ''Tidy the build'', user = ''frank'', labels = []\<rparr>
       \<lparr>includeLabels = [], excludeLabels = [], ignoreDeps = True\<rparr>
   \<and> bucketForLabels [] DEFAULT_LABEL_MAP = Str ''Other''"
proof -
  let ?p = "\<lparr>number = 3, title = ''Tidy the build'', user = ''frank'', labels = []\<rparr>"
  have h: "labels ?p = []"
    by simp
  show ?thesis
    using labelless_retained_in_Other [OF h, of _ True DEFAULT_LABEL_MAP]
    by simp
qed

section \<open>Properties of the release window\<close>

text \<open>
  The parts of the baseline rule the code follows. On a tag push whose tag is found in the
  history with an older tag after it, \<open>previousTag\<close> is that older tag and the baseline is
  its resolved commit timestamp; when the pushed tag is the oldest of the history,
  \<open>previousTag\<close> is null and the baseline is now minus the lookback days. On a trigger that
  is no tag push, a single tag is the current tag and the baseline is its own resolved commit
  timestamp, and without tags the baseline is now minus the lookback days. An error of the
  timestamp resolution leaves the run.
\<close>

lemma baseline_rule_followed:
  fixes octokit :: "'p octokit"
  shows
  "(run_currentTag ctx = Some t \<and> t \<noteq> [] \<and> findIndex (\<lambda>x. name x = t) tags = Some i
      \<and> i + 1 < length tags \<and> name (tags ! (i + 1)) \<noteq> [] \<longrightarrow>
      snd (run_window octokit now sinceDays ctx tags)
        = (case tagCommitDateISO octokit (name (tags ! (i + 1))) of
             Inl e \<Rightarrow> Inl e
           | Inr d \<Rightarrow> Inr \<lparr>currentTag = Some t, previousTag = Some (name (tags ! (i + 1))),
                            baselineISO = d\<rparr>))
   \<and> (run_currentTag ctx = Some t \<and> t \<noteq> []
      \<and> findIndex (\<lambda>x. name x = t) tags = Some i \<and> i + 1 = length tags \<longrightarrow>
      snd (run_window octokit now sinceDays ctx tags)
        = Inr \<lparr>currentTag = Some t, previousTag = None,
               baselineISO = isoDaysAgo now sinceDays\<rparr>)
   \<and> (\<not> truthyStr (run_currentTag ctx) \<and> tags = [only] \<longrightarrow>
      snd (run_window octokit now sinceDays ctx tags)
        = (case tagCommitDateISO octokit (name only) of
             Inl e \<Rightarrow> Inl e
           | Inr d \<Rightarrow> Inr \<lparr>currentTag = Some (name only), previousTag = None,
                            baselineISO = d\<rparr>))
   \<and> (\<not> truthyStr (run_currentTag ctx) \<and> tags = [] \<longrightarrow>
      snd (run_window octokit now sinceDays ctx tags)
        = Inr \<lparr>currentTag = run_currentTag ctx, previousTag = None,
               baselineISO = isoDaysAgo now sinceDays\<rparr>)"
proof (intro conjI impI)
  assume "run_currentTag ctx = Some t \<and> t \<noteq> [] \<and> findIndex (\<lambda>x. name x = t) tags = Some i
      \<and> i + 1 < length tags \<and> name (tags ! (i + 1)) \<noteq> []"
  then show "snd (run_window octokit now sinceDays ctx tags)
        = (case tagCommitDateISO octokit (name (tags ! (i + 1))) of
             Inl e \<Rightarrow> Inl e
           | Inr d \<Rightarrow> Inr \<lparr>currentTag = Some t, previousTag = Some (name (tags ! (i + 1))),
                            baselineISO = d\<rparr>)"
    by (auto simp: run_window_def truthyStr_def orEmpty_def Let_def split: sum.splits)
next
  assume "run_currentTag ctx = Some t \<and> t \<noteq> []
      \<and> findIndex (\<lambda>x. name x = t) tags = Some i \<and> i + 1 = length tags"
  then show "snd (run_window octokit now sinceDays ctx tags)
        = Inr \<lparr>currentTag = Some t, previousTag = None,
               baselineISO = isoDaysAgo now sinceDays\<rparr>"
    by (auto simp: run_window_def truthyStr_def orEmpty_def Let_def)
next
  assume "\<not> truthyStr (run_currentTag ctx) \<and> tags = [only]"
  then show "snd (run_window octokit now sinceDays ctx tags)
        = (case tagCommitDateISO octokit (name only) of
             Inl e \<Rightarrow> Inl e
           | Inr d \<Rightarrow> Inr \<lparr>currentTag = Some (name only), previousTag = None,
                            baselineISO = d\<rparr>)"
    by (auto simp: run_window_def Let_def split: sum.splits)
next
  assume "\<not> truthyStr (run_currentTag ctx) \<and> tags = []"
  then show "snd (run_window octokit now sinceDays ctx tags)
        = Inr \<lparr>currentTag = run_currentTag ctx, previousTag = None,
               baselineISO = isoDaysAgo now sinceDays\<rparr>"
    by (simp add: run_window_def Let_def)
qed

text \<open>
  The rule on the repository with the tags v1.1 and v1.0: a push of v1.1 takes the baseline
  from v1.0, and a push of v1.0, the oldest tag, takes the lookback baseline.
\<close>

lemma baseline_on_tag_push:
  "snd (run_window demoOctokit 1700000000000 30 (tagPush ''v1.1'') demoTags)
     = Inr \<lparr>currentTag = Some ''v1.1'', previousTag = Some ''v1.0'',
            baselineISO = ''2024-01-01T09:00:00Z''\<rparr>
   \<and> snd (run_window demoOctokit 1700000000000 30 (tagPush ''v1.0'') demoTags)
     = Inr \<lparr>currentTag = Some ''v1.0'', previousTag = None,
            baselineISO = ''2023-10-15T22:13:20.000Z''\<rparr>"
  by code_simp

text \<open>
  C1 at a manual run on the tags v1.1 and v1.0. The claim takes the baseline from
  \<open>previousTag\<close> whenever it is set, as the comment over the branch says (previous as
  baseline if available) and as the tag-push branch does. The branch sets
  \<open>previousTag\<close> to v1.0 and resolves the baseline from \<open>currentTag\<close>, v1.1: the window
  reads from v1.0 to v1.1 and its baseline is the commit timestamp of v1.1.
\<close>

theorem manual_run_baseline_is_current_tag:
  "snd (run_window demoOctokit 1700000000000 30 manualRun demoTags)
     = Inr \<lparr>currentTag = Some ''v1.1'', previousTag = Some ''v1.0'',
            baselineISO = ''2024-02-01T09:00:00Z''\<rparr>
   \<and> tagCommitDateISO demoOctokit ''v1.0'' = Inr ''2024-01-01T09:00:00Z''
   \<and> tagCommitDateISO demoOctokit ''v1.1'' = Inr ''2024-02-01T09:00:00Z''"
  by code_simp

text \<open>
  C2 at a push of the tag v2.0 into a history that holds only v1.1 and v1.0. The claim, like
  the warning the code logs, says the run falls back to the latest-tag logic, which would
  make v1.1 the current tag as on a manual run. The code logs the warning and then keeps
  v2.0 as the current tag, with no previous tag and the lookback baseline.
\<close>

theorem pushed_tag_not_in_history:
  "run_window demoOctokit 1700000000000 30 (tagPush ''v2.0'') demoTags
     = ([''Current tag v2.0 not found in listTags; falling back to latest tag logic.''],
        Inr \<lparr>currentTag = Some ''v2.0'', previousTag = None,
              baselineISO = ''2023-10-15T22:13:20.000Z''\<rparr>)
   \<and> run_window demoOctokit 1700000000000 30 manualRun demoTags
     = ([], Inr \<lparr>currentTag = Some ''v1.1'', previousTag = Some ''v1.0'',
                  baselineISO = ''2024-02-01T09:00:00Z''\<rparr>)"
  by code_simp

text \<open>
  The title on a push of a tag and on a trigger that is not a push.
\<close>

lemma run_title_tag_push:
  assumes "truthyStr (run_currentTag ctx)"
    and "run_window octokit now sinceDays ctx tags = (ws, Inr w)"
  shows "run_title ctx w = ''## Release '' @ orEmpty (run_currentTag ctx)"
proof -
  from assms(1) have push: "eventName ctx = ''push''"
    by (auto simp: run_currentTag_def truthyStr_def split: if_splits)
  from assms have "currentTag w = run_currentTag ctx"
    by (auto simp: run_window_def Let_def split: if_splits sum.splits)
  with push assms(1) show ?thesis
    by (simp add: run_title_def)
qed

lemma run_title_not_push:
  "eventName ctx \<noteq> ''push'' \<Longrightarrow> run_title ctx w = ''## Release notes (unreleased)''"
  by (simp add: run_title_def)

text \<open>
  C4 at a push to the branch main of a repository with the tags v1.1 and v1.0. The trigger
  names no tag, the window takes the newest tag as the current one, and the title tests only
  that the event is a push and that a current tag is set: the document is titled as the
  release of v1.1.
\<close>

theorem branch_push_titled_release:
  "run_currentTag branchPush = None
   \<and> snd (run_window demoOctokit 1700000000000 30 branchPush demoTags)
     = Inr \<lparr>currentTag = Some ''v1.1'', previousTag = Some ''v1.0'',
            baselineISO = ''2024-02-01T09:00:00Z''\<rparr>
   \<and> run_title branchPush
        \<lparr>currentTag = Some ''v1.1'', previousTag = Some ''v1.0'',
         baselineISO = ''2024-02-01T09:00:00Z''\<rparr>
     = ''## Release v1.1''"
  by code_simp

section \<open>Properties of the collector\<close>

lemma length_pushItems_capped:
  "int (length out) < maxPRs \<Longrightarrow> int (length (pushItems maxPRs items out)) \<le> maxPRs"
proof (induction items arbitrary: out)
  case Nil
  then show ?case by simp
next
  case (Cons i items)
  show ?case
  proof (cases "int (length (out @ [normalizeItem i])) \<ge> maxPRs")
    case True
    with Cons.prems show ?thesis by (simp add: Let_def)
  next
    case False
    then have "int (length (out @ [normalizeItem i])) < maxPRs" by simp
    from Cons.IH [OF this] False show ?thesis by (simp add: Let_def)
  qed
qed

lemma searchLoop_capped:
  "int (length out) \<le> maxPRs \<Longrightarrow> searchLoop fetch maxPRs page out = Inr res \<Longrightarrow>
   int (length res) \<le> maxPRs"
proof (induction fetch maxPRs page out rule: searchLoop.induct)
  case (1 fetch maxPRs page out)
  note unfold = searchLoop.simps [of fetch maxPRs page out]
  show ?case
  proof (cases "int (length out) < maxPRs")
    case False
    with "1.prems" show ?thesis by (simp add: unfold)
  next
    case below: True
    show ?thesis
    proof (cases "fetch page")
      case (Inl e)
      with below "1.prems" show ?thesis by (simp add: unfold)
    next
      case (Inr items)
      have capped: "int (length (pushItems maxPRs items out)) \<le> maxPRs"
        using below by (rule length_pushItems_capped)
      show ?thesis
      proof (cases "items = []")
        case True
        with below Inr "1.prems" show ?thesis by (simp add: unfold)
      next
        case nonempty: False
        show ?thesis
        proof (cases "length items < perPage")
          case True
          with below Inr nonempty "1.prems" capped show ?thesis by (auto simp: unfold)
        next
          case False
          with below Inr nonempty "1.prems"
          have "searchLoop fetch maxPRs (page + 1) (pushItems maxPRs items out) = Inr res"
            by (simp add: unfold)
          with "1.IH" [OF below Inr nonempty False capped] show ?thesis .
        qed
      qed
    qed
  qed
qed

lemma searchLoop_returns:
  "(\<And>pg. \<exists>items. fetch pg = Inr items) \<Longrightarrow> \<exists>res. searchLoop fetch maxPRs page out = Inr res"
proof (induction fetch maxPRs page out rule: searchLoop.induct)
  case (1 fetch maxPRs page out)
  note unfold = searchLoop.simps [of fetch maxPRs page out]
  from "1.prems" obtain items where it: "fetch page = Inr items" by blast
  show ?case
  proof (cases "int (length out) < maxPRs \<and> items \<noteq> [] \<and> \<not> length items < perPage")
    case True
    then have "\<exists>res. searchLoop fetch maxPRs (page + 1) (pushItems maxPRs items out) = Inr res"
      using "1.IH" [of items] it "1.prems" by blast
    with True it show ?thesis by (simp add: unfold)
  next
    case False
    with it show ?thesis by (auto simp: unfold)
  qed
qed

text \<open>
  The last step, the sort by number, gives the same list for the same records in any order
  when their numbers differ.
\<close>

lemma sort_by_number_order_independent:
  assumes "set xs = set ys" and "distinct (map number xs)" and "distinct (map number ys)"
  shows "sort_key number xs = sort_key number ys"
proof -
  have inj: "inj_on number (set xs)"
    using assms(2) by (simp add: distinct_map)
  have dx: "distinct (sort_key number xs)" and dy: "distinct (sort_key number ys)"
    using assms(2,3) by (simp_all add: distinct_map)
  have "map number (sort_key number xs) = map number (sort_key number ys)"
  proof (rule sorted_distinct_set_unique)
    show "sorted (map number (sort_key number xs))" by (rule sorted_sort_key)
    show "sorted (map number (sort_key number ys))" by (rule sorted_sort_key)
    show "distinct (map number (sort_key number xs))"
      using assms(2) dx by (simp add: distinct_map)
    show "distinct (map number (sort_key number ys))"
      using assms(3) dy by (simp add: distinct_map)
    show "set (map number (sort_key number xs)) = set (map number (sort_key number ys))"
      using assms(1) by simp
  qed
  moreover have "inj_on number (set (sort_key number xs) \<union> set (sort_key number ys))"
    using inj assms(1) by simp
  ultimately show ?thesis
    by (rule map_inj_on)
qed

text \<open>
  C9: whatever pages the search API returns, the records \<open>searchMergedPRs\<close> returns are at
  most \<open>maxPRs\<close> (a count, so not negative) and ascend by number. The loop always ends, and
  it ends with records when every page request is served (\<open>searchLoop_returns\<close>).
\<close>

theorem searchMergedPRs_capped_sorted:
  assumes "0 \<le> maxPRs"
    and "searchMergedPRs octokit owner repo baseBranch mergedAfterISO maxPRs = Inr res"
  shows "int (length res) \<le> maxPRs \<and> sorted (map number res)"
proof -
  from assms(2) obtain acc where
    loop: "searchLoop (issuesAndPullRequests octokit (searchQuery owner repo baseBranch mergedAfterISO) perPage) maxPRs 1 [] = Inr acc"
    and res: "res = sort_key number acc"
    by (auto simp: searchMergedPRs_def Let_def split: sum.splits)
  from assms(1) have "int (length ([] :: pr list)) \<le> maxPRs" by simp
  from searchLoop_capped [OF this loop] have "int (length acc) \<le> maxPRs" .
  with res show ?thesis by simp
qed

theorem searchMergedPRs_capped_sorted_witness:
  "searchMergedPRs demoOctokit ''acme'' ''app'' ''main'' ''2024-01-01T09:00:00Z'' 2
     = Inr [\<lparr>number = 412, title = ''Fix login redirect loop'', user = ''alice'',
              labels = [''bug'']\<rparr>,
            \<lparr>number = 420, title = ''Upgrade dependencies'', user = ''carol'',
              labels = [''dependencies'']\<rparr>]
   \<and> sorted [412, 420 :: int]"
proof -
  have run: "searchMergedPRs demoOctokit ''acme'' ''app'' ''main'' ''2024-01-01T09:00:00Z'' 2
     = Inr [\<lparr>number = 412, title = ''Fix login redirect loop'', user = ''alice'',
              labels = [''bug'']\<rparr>,
            \<lparr>number = 420, title = ''Upgrade dependencies'', user = ''carol'',
              labels = [''dependencies'']\<rparr>]"
    by code_simp
  have cap: "(0::int) \<le> 2" by simp
  from searchMergedPRs_capped_sorted [OF cap run] run show ?thesis by simp
qed

section \<open>Properties of the release sink\<close>

lemma find_tag_has_id:
  "List.find (\<lambda>r. tag_name r = tg) st = Some r \<Longrightarrow>
   List.find (\<lambda>x. release_id x = release_id r) st \<noteq> None"
  by (induction st) (auto split: if_splits)

lemma releasesFor_update:
  "releasesFor tg (map (\<lambda>x. if release_id x = rid then x\<lparr>release_body := bd, release_draft := dr\<rparr> else x) st)
   = map (\<lambda>x. if release_id x = rid then x\<lparr>release_body := bd, release_draft := dr\<rparr> else x) (releasesFor tg st)"
  by (induction st) (auto simp: releasesFor_def)

lemma find_is_hd_filter:
  "List.find P xs = Some r \<Longrightarrow> hd (filter P xs) = r"
  by (induction xs) (auto split: if_splits)

lemma upsert_found_updates:
  assumes "getReleaseByTag octokit tg st = (Inr existing, st1)"
    and "updateRelease octokit (release_id existing) bd dr st1 = (Inr updated, st2)"
  shows "upsertReleaseByTag octokit tg bd dr st
           = (Inr \<lparr>action = ''updated'', url = html_url updated\<rparr>, st2)"
  using assms by (simp add: upsertReleaseByTag_def)

lemma upsert_lookup_failure_creates:
  assumes "getReleaseByTag octokit tg st = (Inl e, st1)"
  shows "upsertReleaseByTag octokit tg bd dr st = upsert_catch octokit tg bd dr st1"
  using assms by (simp add: upsertReleaseByTag_def)

text \<open>
  C3 at a lookup that fails with a server error while the release exists. The claim lets the
  error reach the top level. The \<open>catch\<close> block takes every thrown value for a missing
  release: the error is dropped, a release is created, and the tag has two records.
\<close>

theorem lookup_failure_creates_second_release:
  "upsertReleaseByTag serverErrorOctokit ''v1.1'' ''notes, second run'' True
     [\<lparr>release_id = 1, tag_name = ''v1.1'', release_name = ''Release v1.1'',
       release_body = ''notes'', release_draft = True,
       html_url = ''https://github.com/acme/app/releases/tag/v1.1''\<rparr>]
   = (Inr \<lparr>action = ''created'', url = ''https://github.com/acme/app/releases/tag/v1.1''\<rparr>,
      [\<lparr>release_id = 1, tag_name = ''v1.1'', release_name = ''Release v1.1'',
        release_body = ''notes'', release_draft = True,
        html_url = ''https://github.com/acme/app/releases/tag/v1.1''\<rparr>,
       \<lparr>release_id = 2, tag_name = ''v1.1'', release_name = ''Release v1.1'',
        release_body = ''notes, second run'', release_draft = True,
        html_url = ''https://github.com/acme/app/releases/tag/v1.1''\<rparr>])"
  by code_simp

text \<open>
  C5: on a platform that keeps its release records and serves the calls, an upsert for a tag
  that has a release reports \<open>updated\<close>, leaves the number of records of the tag (and of
  all records) as it was, and the release found carries the new body.
\<close>

theorem upsert_existing_release_updated:
  assumes "getReleaseByTag octokit = memory_getReleaseByTag"
    and "updateRelease octokit = memory_updateRelease"
    and "releasesFor tg st \<noteq> []"
  shows "map_sum id action (fst (upsertReleaseByTag octokit tg bd dr st)) = Inr ''updated''
    \<and> length (releasesFor tg (snd (upsertReleaseByTag octokit tg bd dr st)))
        = length (releasesFor tg st)
    \<and> length (snd (upsertReleaseByTag octokit tg bd dr st)) = length st
    \<and> release_body (hd (releasesFor tg (snd (upsertReleaseByTag octokit tg bd dr st)))) = bd"
proof -
  from assms(3) obtain r where found: "List.find (\<lambda>r. tag_name r = tg) st = Some r"
    by (cases "List.find (\<lambda>r. tag_name r = tg) st")
       (auto simp: releasesFor_def find_None_iff filter_empty_conv)
  then obtain r' where byId: "List.find (\<lambda>x. release_id x = release_id r) st = Some r'"
    using find_tag_has_id by fastforce
  let ?f = "\<lambda>x. if release_id x = release_id r
                 then x\<lparr>release_body := bd, release_draft := dr\<rparr> else x"
  have result: "upsertReleaseByTag octokit tg bd dr st
      = (Inr \<lparr>action = ''updated'',
               url = html_url (r'\<lparr>release_body := bd, release_draft := dr\<rparr>)\<rparr>,
         map ?f st)"
    using found byId
    by (simp add: upsertReleaseByTag_def assms(1,2) memory_getReleaseByTag_def
        memory_updateRelease_def)
  have first: "hd (releasesFor tg st) = r"
    using found unfolding releasesFor_def by (rule find_is_hd_filter)
  have "hd (releasesFor tg (map ?f st)) = ?f (hd (releasesFor tg st))"
    using assms(3) by (simp add: releasesFor_update hd_map)
  with first have "release_body (hd (releasesFor tg (map ?f st))) = bd"
    by simp
  with result show ?thesis
    by (simp add: releasesFor_update)
qed

theorem upsert_existing_release_updated_witness:
  "fst (upsertReleaseByTag demoOctokit ''v1.1'' ''notes'' True [])
     = Inr \<lparr>action = ''created'', url = ''https://github.com/acme/app/releases/tag/v1.1''\<rparr>
   \<and> map_sum id action (fst (upsertReleaseByTag demoOctokit ''v1.1'' ''notes'' True
        (snd (upsertReleaseByTag demoOctokit ''v1.1'' ''notes'' True [])))) = Inr ''updated''
   \<and> length (releasesFor ''v1.1'' (snd (upsertReleaseByTag demoOctokit ''v1.1'' ''notes'' True
        (snd (upsertReleaseByTag demoOctokit ''v1.1'' ''notes'' True []))))) = 1"
proof -
  let ?st1 = "snd (upsertReleaseByTag demoOctokit ''v1.1'' ''notes'' True [])"
  have first: "fst (upsertReleaseByTag demoOctokit ''v1.1'' ''notes'' True [])
     = Inr \<lparr>action = ''created'', url = ''https://github.com/acme/app/releases/tag/v1.1''\<rparr>"
    by code_simp
  have ops: "getReleaseByTag demoOctokit = memory_getReleaseByTag"
    "updateRelease demoOctokit = memory_updateRelease"
    by (simp_all add: demoOctokit_def)
  have h: "releasesFor ''v1.1'' ?st1 \<noteq> []"
    by code_simp
  have one: "length (releasesFor ''v1.1'' ?st1) = 1"
    by code_simp
  from upsert_existing_release_updated [OF ops h, of "''notes''" True] one first
  show ?thesis by simp
qed

end
